theory Spec2Isabelle
  imports Main
begin

section \<open>The multi-select autocomplete component\<close>

text \<open>
  A shallow embedding of \<^verbatim>\<open>src/components/MultiSelectAutocomplete.tsx\<close>. The component is a
  function of eight \<^verbatim>\<open>useState\<close> cells; every handler reads the cells of the render it was created
  in and queues new values. Handlers run one at a time on the event loop, so a handler is
  modelled as a function from the state it sees to the state after its updates are applied.
  A handler that throws is a value \<open>Inl e\<close>: nothing it queued before the throw matters
  here, since the only throwing path throws before its first setter call.
\<close>

subsection \<open>JavaScript values\<close>

text \<open>
  The two index cells hold JavaScript numbers. Every value they can take is either an integer
  far below \<open>2 ^ 53\<close> (sums of list lengths and small constants, exact in a double) or
  \<^verbatim>\<open>NaN\<close>, which \<^verbatim>\<open>x % 0\<close> produces; \<^verbatim>\<open>-0\<close> is identified with \<^verbatim>\<open>0\<close> (it indexes, adds and
  compares like \<^verbatim>\<open>0\<close>).
\<close>

datatype jsnum = Num int | NaN

datatype js_error = TypeError | SyntaxError

text \<open>\<^verbatim>\<open>x + k\<close> for an integer \<open>k\<close>.\<close>

fun js_plus :: "jsnum \<Rightarrow> int \<Rightarrow> jsnum" where
  "js_plus (Num a) k = Num (a + k)"
| "js_plus NaN k = NaN"

text \<open>
  \<^verbatim>\<open>x % n\<close> for an integer \<open>n\<close>: the remainder of the truncating division, with the sign
  of the dividend, and \<^verbatim>\<open>NaN\<close> when the divisor is zero.
\<close>

fun js_rem :: "jsnum \<Rightarrow> int \<Rightarrow> jsnum" where
  "js_rem (Num a) n = (if n = 0 then NaN else Num (sgn a * (\<bar>a\<bar> mod \<bar>n\<bar>)))"
| "js_rem NaN n = NaN"

text \<open>
  \<^verbatim>\<open>xs[i]\<close>: the element when \<open>i\<close> is an integer position of the array, \<^verbatim>\<open>undefined\<close>
  (\<open>None\<close>) for a negative or too large index and for \<^verbatim>\<open>NaN\<close>.
\<close>

fun js_index :: "'a list \<Rightarrow> jsnum \<Rightarrow> 'a option" where
  "js_index xs (Num i) = (if 0 \<le> i \<and> i < int (length xs) then Some (xs ! nat i) else None)"
| "js_index xs NaN = None"

text \<open>\<^verbatim>\<open>xs.slice(start, end)\<close> for integer arguments; a negative argument counts from the end.\<close>

definition slice :: "'a list \<Rightarrow> int \<Rightarrow> int \<Rightarrow> 'a list" where
  "slice xs start end =
     (let n = int (length xs);
          k = (if start < 0 then max (n + start) 0 else min start n);
          f = (if end < 0 then max (n + end) 0 else min end n)
      in take (nat (f - k)) (drop (nat k) xs))"

subsection \<open>Data model\<close>

text \<open>
  \<^verbatim>\<open>type Character = { id: number; name: string; image: string; episodeCount: number }\<close>.
  Identifiers and counts arrive as JSON numbers of the lookup service, which are integers.
  The field \<^verbatim>\<open>id\<close> is \<open>cid\<close> and \<^verbatim>\<open>image\<close> is \<open>image_url\<close> here, the plain names being
  constants of HOL.
\<close>

record character =
  cid :: int
  name :: string
  image_url :: string
  episodeCount :: int

record state =
  searchQuery :: string
  selectedCharacters :: "character list"
  searchResults :: "character list"
  isLoading :: bool
  isError :: bool
  highlightedIndex :: jsnum
  focusedSelectedIndex :: "jsnum option"
  hoveredIndex :: "jsnum option"

text \<open>The initial values of the \<^verbatim>\<open>useState\<close> cells.\<close>

definition initial :: state where
  "initial = \<lparr> searchQuery = [], selectedCharacters = [], searchResults = [],
               isLoading = False, isError = False, highlightedIndex = Num 0,
               focusedSelectedIndex = None, hoveredIndex = None \<rparr>"

subsection \<open>Query controller\<close>

definition updateSearchQuery :: "state \<Rightarrow> string \<Rightarrow> state" where
  "updateSearchQuery s newQuery = s\<lparr> searchQuery := newQuery, isError := False \<rparr>"

text \<open>
  The body of the effect that depends on \<^verbatim>\<open>searchQuery\<close>, up to the point where the request
  has been sent: a non-empty query raises \<^verbatim>\<open>isLoading\<close>.
\<close>

definition searchEffect :: "state \<Rightarrow> state" where
  "searchEffect s = (if length (searchQuery s) > 0 then s\<lparr> isLoading := True \<rparr> else s)"

text \<open>
  The \<^verbatim>\<open>onChange\<close> of the text input: the handler, then the effect when the render that follows
  has a different \<^verbatim>\<open>searchQuery\<close>.
\<close>

definition change :: "state \<Rightarrow> string \<Rightarrow> state" where
  "change s newQuery =
     (let s' = updateSearchQuery s newQuery
      in if newQuery \<noteq> searchQuery s then searchEffect s' else s')"

text \<open>
  What a request settles with. A rejected promise (network failure, status outside 2xx) is
  \<open>Rejected\<close>. A fulfilled one carries \<^verbatim>\<open>response.data.results\<close>, \<open>None\<close> when that is not an
  array; each element carries the four properties the component reads, \<^verbatim>\<open>episode\<close> being
  \<open>None\<close> when the payload has no such array.
\<close>

record raw_character =
  raw_id :: int
  raw_name :: string
  raw_image :: string
  raw_episode :: "string list option"

datatype response = Rejected | Fulfilled "raw_character list option"

text \<open>
  The mapping callback of the \<^verbatim>\<open>then\<close> branch; reading \<^verbatim>\<open>length\<close> of a missing \<^verbatim>\<open>episode\<close>
  throws.
\<close>

definition toCharacter :: "raw_character \<Rightarrow> js_error + character" where
  "toCharacter r =
     (case raw_episode r of
        None \<Rightarrow> Inl TypeError
      | Some eps \<Rightarrow> Inr \<lparr> cid = raw_id r, name = raw_name r, image_url = raw_image r,
                           episodeCount = int (length eps) \<rparr>)"

fun mapCharacters :: "raw_character list \<Rightarrow> js_error + character list" where
  "mapCharacters [] = Inr []"
| "mapCharacters (r # rs) =
     (case toCharacter r of
        Inl e \<Rightarrow> Inl e
      | Inr c \<Rightarrow> (case mapCharacters rs of Inl e \<Rightarrow> Inl e | Inr cs \<Rightarrow> Inr (c # cs)))"

definition toCharacters :: "raw_character list option \<Rightarrow> js_error + character list" where
  "toCharacters results =
     (case results of None \<Rightarrow> Inl TypeError | Some rs \<Rightarrow> mapCharacters rs)"

text \<open>The \<^verbatim>\<open>catch\<close> callback.\<close>

definition onRejected :: "state \<Rightarrow> state" where
  "onRejected s = s\<lparr> isError := True, isLoading := False \<rparr>"

text \<open>
  The \<^verbatim>\<open>then\<close> callback followed by \<^verbatim>\<open>catch\<close>: an exception thrown while the payload is
  mapped is raised before \<^verbatim>\<open>setSearchResults\<close> and lands in the \<^verbatim>\<open>catch\<close> callback as well.
\<close>

definition settle :: "state \<Rightarrow> response \<Rightarrow> state" where
  "settle s r =
     (case r of
        Rejected \<Rightarrow> onRejected s
      | Fulfilled results \<Rightarrow>
          (case toCharacters results of
             Inl e \<Rightarrow> onRejected s
           | Inr characters \<Rightarrow> s\<lparr> searchResults := characters, isLoading := False \<rparr>))"

text \<open>The lookup failed: the promise chain ended in the \<^verbatim>\<open>catch\<close> callback.\<close>

definition lookupFailed :: "response \<Rightarrow> bool" where
  "lookupFailed r =
     (case r of Rejected \<Rightarrow> True | Fulfilled results \<Rightarrow> isl (toCharacters results))"

subsection \<open>Selection set\<close>

definition isCharacterSelected :: "state \<Rightarrow> int \<Rightarrow> bool" where
  "isCharacterSelected s i = list_ex (\<lambda>c. cid c = i) (selectedCharacters s)"

definition selectCharacter :: "state \<Rightarrow> character \<Rightarrow> state" where
  "selectCharacter s ch =
     (if isCharacterSelected s (cid ch)
      then s\<lparr> selectedCharacters := filter (\<lambda>c. cid c \<noteq> cid ch) (selectedCharacters s) \<rparr>
      else s\<lparr> selectedCharacters := selectedCharacters s @ [ch] \<rparr>)"

text \<open>
  \<^verbatim>\<open>selectCharacter\<close> called with a value that may be \<^verbatim>\<open>undefined\<close>: its first step reads
  \<^verbatim>\<open>character.id\<close>, which throws a \<^verbatim>\<open>TypeError\<close> on \<^verbatim>\<open>undefined\<close>.
\<close>

definition selectCharacter_at :: "state \<Rightarrow> character option \<Rightarrow> js_error + state" where
  "selectCharacter_at s v = (case v of None \<Rightarrow> Inl TypeError | Some ch \<Rightarrow> Inr (selectCharacter s ch))"

definition removeCharacter :: "state \<Rightarrow> int \<Rightarrow> state" where
  "removeCharacter s characterId =
     s\<lparr> selectedCharacters := filter (\<lambda>c. cid c \<noteq> characterId) (selectedCharacters s) \<rparr>"

subsection \<open>Keyboard and pointer handlers\<close>

text \<open>
  \<^verbatim>\<open>handleKeyDown\<close>; the result carries the state and whether \<^verbatim>\<open>event.preventDefault()\<close> was
  called. \<^verbatim>\<open>highlightedIndex !== null\<close> holds for every number, so the test of the
  \<^verbatim>\<open>Enter\<close> branch is the one on the length.
\<close>

definition handleKeyDown :: "state \<Rightarrow> string \<Rightarrow> js_error + state \<times> bool" where
  "handleKeyDown s key =
     (let n = int (length (searchResults s)) in
      if key = ''ArrowDown'' \<or> key = ''ArrowUp'' then
        Inr (s\<lparr> highlightedIndex :=
                  (if key = ''ArrowDown''
                   then js_rem (js_plus (highlightedIndex s) 1) n
                   else js_rem (js_plus (js_plus (highlightedIndex s) (- 1)) n) n),
                hoveredIndex :=
                  Some (if key = ''ArrowDown''
                        then (case hoveredIndex s of
                                Some p \<Rightarrow> js_rem (js_plus p 1) n
                              | None \<Rightarrow> Num 0)
                        else (case hoveredIndex s of
                                Some p \<Rightarrow> js_rem (js_plus (js_plus p (- 1)) n) n
                              | None \<Rightarrow> Num (n - 1))) \<rparr>, False)
      else if key = ''Enter'' then
        (if n > 0 then
           (case selectCharacter_at s (js_index (searchResults s) (js_plus (highlightedIndex s) (- 1))) of
              Inl e \<Rightarrow> Inl e
            | Inr s' \<Rightarrow> Inr (s', True))
         else Inr (s, False))
      else if key = ''Backspace'' \<or> key = ''Delete'' then
        (if searchQuery s = [] \<and> length (selectedCharacters s) > 0
         then Inr (s\<lparr> selectedCharacters := slice (selectedCharacters s) 0 (- 1) \<rparr>, False)
         else Inr (s, False))
      else if key = ''Tab'' then Inr (s, False)
      else Inr (s, False))"

definition handleMouseEnter :: "state \<Rightarrow> nat \<Rightarrow> state" where
  "handleMouseEnter s index = s\<lparr> hoveredIndex := Some (Num (int index)) \<rparr>"

definition handleMouseLeave :: "state \<Rightarrow> state" where
  "handleMouseLeave s = s\<lparr> hoveredIndex := None \<rparr>"

subsection \<open>The component as a transition system\<close>

text \<open>
  Everything that can happen to a mounted component: the text changes, a key goes down in the
  input, the pointer enters or leaves a result row, a result row or its checkbox is clicked
  (both call \<^verbatim>\<open>selectCharacter\<close> on the row's character, and a row exists only for a position
  of \<^verbatim>\<open>searchResults\<close>), a tag of the selection is clicked, a request settles. A click on the
  checkbox reaches the handler of the checkbox and that of the row; both compute the new
  selection from the selection of the same render, so the two calls set the same value and
  count as one.
\<close>

datatype event =
    Change string
  | KeyDown string
  | MouseEnter nat
  | MouseLeave
  | ClickResult nat
  | ClickTag int
  | Settle response

definition step :: "state \<Rightarrow> event \<Rightarrow> js_error + state" where
  "step s ev =
     (case ev of
        Change q \<Rightarrow> Inr (change s q)
      | KeyDown k \<Rightarrow>
          (case handleKeyDown s k of Inl e \<Rightarrow> Inl e | Inr (s', prevented) \<Rightarrow> Inr s')
      | MouseEnter i \<Rightarrow> Inr (handleMouseEnter s i)
      | MouseLeave \<Rightarrow> Inr (handleMouseLeave s)
      | ClickResult i \<Rightarrow>
          (if i < length (searchResults s)
           then Inr (selectCharacter s (searchResults s ! i))
           else Inr s)
      | ClickTag i \<Rightarrow> Inr (removeCharacter s i)
      | Settle r \<Rightarrow> Inr (settle s r))"

text \<open>A run of events, up to the first handler that throws.\<close>

fun run :: "state \<Rightarrow> event list \<Rightarrow> js_error + state" where
  "run s [] = Inr s"
| "run s (ev # evs) = (case step s ev of Inl e \<Rightarrow> Inl e | Inr s' \<Rightarrow> run s' evs)"

subsection \<open>Text highlighting\<close>

text \<open>
  \<^verbatim>\<open>highlightText\<close> builds \<^verbatim>\<open>new RegExp(`(${query})`, "gi")\<close> from the raw query, splits the
  text with it and renders each part, bold when its lower-case form is that of the query.
  The pattern language is modelled for two kinds of query:
  \<^item> a query without any syntax character of the pattern grammar
    (\<^verbatim>\<open>^ $ \ . * + ? ( ) [ ] { } |\<close>) is a pattern that matches its own text, ignoring case;
  \<^item> a query whose only syntax characters are parentheses and that leaves the parentheses of
    \<^verbatim>\<open>(query)\<close> unbalanced is not a pattern: the constructor throws a \<^verbatim>\<open>SyntaxError\<close>.
  Every other query is outside the model, which says so with \<open>None\<close>. Characters are
  ASCII code units.
\<close>

definition isOtherSyntax :: "char \<Rightarrow> bool" where
  "isOtherSyntax c =
     List.member [CHR ''^'', CHR ''$'', CHR 0x5C, CHR ''.'', CHR ''*'', CHR ''+'', CHR ''?'',
                  CHR ''['', CHR '']'', CHR ''{'', CHR ''}'', CHR ''|''] c"

definition isParen :: "char \<Rightarrow> bool" where
  "isParen c = (c = CHR ''('' \<or> c = CHR '')'')"

fun balanced :: "string \<Rightarrow> nat \<Rightarrow> bool" where
  "balanced [] d = (d = 0)"
| "balanced (c # cs) d =
     (if c = CHR ''('' then balanced cs (Suc d)
      else if c = CHR '')'' then (case d of 0 \<Rightarrow> False | Suc d' \<Rightarrow> balanced cs d')
      else balanced cs d)"

text \<open>
  The constructor applied to \<^verbatim>\<open>(query)\<close>: the text the pattern matches, a thrown error, or
  \<open>None\<close> for a pattern outside the model.
\<close>

definition RegExp_group :: "string \<Rightarrow> (js_error + string) option" where
  "RegExp_group query =
     (if list_ex isOtherSyntax query then None
      else if list_ex isParen query
      then (if balanced (''('' @ query @ '')'') 0 then None else Some (Inl SyntaxError))
      else Some (Inr query))"

text \<open>The case folding of the \<^verbatim>\<open>i\<close> flag (to upper case) and \<^verbatim>\<open>toLowerCase\<close>.\<close>

definition canonicalize :: "char \<Rightarrow> char" where
  "canonicalize c =
     (let k = (of_char c :: nat) in if 97 \<le> k \<and> k \<le> 122 then char_of (k - 32) else c)"

definition toLowerCase_char :: "char \<Rightarrow> char" where
  "toLowerCase_char c =
     (let k = (of_char c :: nat) in if 65 \<le> k \<and> k \<le> 90 then char_of (k + 32) else c)"

definition toLowerCase :: "string \<Rightarrow> string" where
  "toLowerCase str = map toLowerCase_char str"

definition substring :: "string \<Rightarrow> nat \<Rightarrow> nat \<Rightarrow> string" where
  "substring S from to = take (to - from) (drop from S)"

text \<open>
  A match attempt of the pattern for the text \<open>w\<close> anchored at position \<open>q\<close> of \<open>S\<close>: the end
  of the match, or \<open>None\<close>.
\<close>

definition exec_at :: "string \<Rightarrow> string \<Rightarrow> nat \<Rightarrow> nat option" where
  "exec_at w S q =
     (if map canonicalize (take (length w) (drop q S)) = map canonicalize w
      then Some (q + length w) else None)"

text \<open>
  The loop of \<^verbatim>\<open>String.prototype.split\<close> with a pattern: \<open>p\<close> is the end of the last match,
  \<open>q\<close> the position tried next. A match that ends at \<open>p\<close> is skipped; any other match
  contributes the text before it and the text of the capturing group.
\<close>

function split_loop :: "string \<Rightarrow> string \<Rightarrow> nat \<Rightarrow> nat \<Rightarrow> string list" where
  "split_loop w S p q =
     (if q < length S then
        (case exec_at w S q of
           None \<Rightarrow> split_loop w S p (q + 1)
         | Some e \<Rightarrow>
             (if e = p then split_loop w S p (q + 1)
              else substring S p q # substring S q e # split_loop w S e e))
      else [substring S p (length S)])"
  by pat_completeness auto
termination
  by (relation "measure (\<lambda>(w, S, p, q). 2 * (length S - q) + (if p = q then 0 else 1))")
     (auto simp: exec_at_def neq_Nil_conv split: if_splits)

declare split_loop.simps [simp del]

definition js_split :: "string \<Rightarrow> string \<Rightarrow> string list" where
  "js_split S w =
     (if length S = 0 then (case exec_at w S 0 of Some e \<Rightarrow> [] | None \<Rightarrow> [S])
      else split_loop w S 0 0)"

text \<open>One rendered \<^verbatim>\<open>span\<close>: its text and whether its style is bold.\<close>

record span =
  content :: string
  bold :: bool

definition highlightText :: "string \<Rightarrow> string \<Rightarrow> (js_error + span list) option" where
  "highlightText txt query =
     (case RegExp_group query of
        None \<Rightarrow> None
      | Some (Inl e) \<Rightarrow> Some (Inl e)
      | Some (Inr w) \<Rightarrow>
          Some (Inr (map (\<lambda>part. \<lparr> content = part,
                                      bold = (toLowerCase part = toLowerCase query) \<rparr>)
                         (js_split txt w))))"

subsection \<open>Sample data\<close>

definition rick :: character where
  "rick = \<lparr> cid = 1, name = ''Rick Sanchez'', image_url = ''rick.jpeg'', episodeCount = 2 \<rparr>"

definition morty :: character where
  "morty = \<lparr> cid = 2, name = ''Morty Smith'', image_url = ''morty.jpeg'', episodeCount = 1 \<rparr>"

definition summer :: character where
  "summer = \<lparr> cid = 3, name = ''Summer Smith'', image_url = ''summer.jpeg'', episodeCount = 0 \<rparr>"

definition beth :: character where
  "beth = \<lparr> cid = 4, name = ''Beth Smith'', image_url = ''beth.jpeg'', episodeCount = 3 \<rparr>"

definition jerry :: character where
  "jerry = \<lparr> cid = 5, name = ''Jerry Smith'', image_url = ''jerry.jpeg'', episodeCount = 1 \<rparr>"

definition squanchy :: character where
  "squanchy = \<lparr> cid = 331, name = ''Squanchy'', image_url = ''squanchy.jpeg'', episodeCount = 1 \<rparr>"

definition raw :: "character \<Rightarrow> raw_character" where
  "raw c = \<lparr> raw_id = cid c, raw_name = name c, raw_image = image_url c,
             raw_episode = Some (replicate (nat (episodeCount c)) ''episode'') \<rparr>"

text \<open>The state after the query \<^verbatim>\<open>Rick\<close> has been typed and its lookup has returned one character.\<close>

definition loaded :: state where
  "loaded = initial\<lparr> searchQuery := ''Rick'', searchResults := [rick] \<rparr>"

text \<open>
  A state whose index is left over from a longer result list: six results, \<^verbatim>\<open>ArrowUp\<close> to the
  last of them, then a lookup for another query that returns three.
\<close>

definition stale :: state where
  "stale = initial\<lparr> searchQuery := ''Ri'', searchResults := [rick, morty, summer],
                    highlightedIndex := Num 5, hoveredIndex := Some (Num 5) \<rparr>"

section \<open>Properties\<close>

subsection \<open>The key handler, key by key\<close>

lemma slice_butlast: "slice xs 0 (- 1) = butlast xs"
  by (simp add: slice_def butlast_conv_take Let_def nat_diff_distrib' max_def)

lemma js_rem_nonneg: "0 \<le> a \<Longrightarrow> 0 < n \<Longrightarrow> js_rem (Num a) n = Num (a mod n)"
  by (cases "a = 0") (simp_all add: sgn_if)

lemma handleKeyDown_ArrowDown:
  "handleKeyDown s ''ArrowDown'' =
     Inr (s\<lparr> highlightedIndex :=
               js_rem (js_plus (highlightedIndex s) 1) (int (length (searchResults s))),
             hoveredIndex :=
               Some (case hoveredIndex s of
                       Some p \<Rightarrow> js_rem (js_plus p 1) (int (length (searchResults s)))
                     | None \<Rightarrow> Num 0) \<rparr>, False)"
  by (simp add: handleKeyDown_def Let_def)

lemma handleKeyDown_ArrowUp:
  "handleKeyDown s ''ArrowUp'' =
     Inr (s\<lparr> highlightedIndex :=
               js_rem (js_plus (js_plus (highlightedIndex s) (- 1)) (int (length (searchResults s))))
                      (int (length (searchResults s))),
             hoveredIndex :=
               Some (case hoveredIndex s of
                       Some p \<Rightarrow> js_rem (js_plus (js_plus p (- 1)) (int (length (searchResults s))))
                                        (int (length (searchResults s)))
                     | None \<Rightarrow> Num (int (length (searchResults s)) - 1)) \<rparr>, False)"
  by (simp add: handleKeyDown_def Let_def)

lemma handleKeyDown_Enter:
  "handleKeyDown s ''Enter'' =
     (if searchResults s = [] then Inr (s, False)
      else case js_index (searchResults s) (js_plus (highlightedIndex s) (- 1)) of
             None \<Rightarrow> Inl TypeError
           | Some ch \<Rightarrow> Inr (selectCharacter s ch, True))"
  by (simp add: handleKeyDown_def selectCharacter_at_def split: option.splits)

lemma handleKeyDown_Backspace:
  "handleKeyDown s ''Backspace'' =
     (if searchQuery s = [] \<and> selectedCharacters s \<noteq> []
      then Inr (s\<lparr> selectedCharacters := butlast (selectedCharacters s) \<rparr>, False)
      else Inr (s, False))"
  by (simp add: handleKeyDown_def slice_butlast)

lemma handleKeyDown_Delete:
  "handleKeyDown s ''Delete'' =
     (if searchQuery s = [] \<and> selectedCharacters s \<noteq> []
      then Inr (s\<lparr> selectedCharacters := butlast (selectedCharacters s) \<rparr>, False)
      else Inr (s, False))"
  by (simp add: handleKeyDown_def slice_butlast)

lemma handleKeyDown_other:
  "key \<noteq> ''ArrowDown'' \<Longrightarrow> key \<noteq> ''ArrowUp'' \<Longrightarrow> key \<noteq> ''Enter'' \<Longrightarrow>
   key \<noteq> ''Backspace'' \<Longrightarrow> key \<noteq> ''Delete'' \<Longrightarrow> handleKeyDown s key = Inr (s, False)"
  unfolding handleKeyDown_def Let_def by (simp only: if_False simp_thms if_cancel)


subsection \<open>Arrow keys: arithmetic of the index\<close>

lemma down_up:
  assumes "0 \<le> i" "i < n"
  shows "js_rem (js_plus (js_plus (js_rem (js_plus (Num i) 1) n) (- 1)) n) n = Num i"
proof -
  define m where "m = (i + 1) mod n"
  have n: "0 < n" using assms by linarith
  have m: "m = (if i + 1 = n then 0 else i + 1)"
    unfolding m_def using assms by simp
  have down: "js_rem (js_plus (Num i) 1) n = Num m"
    unfolding m_def using assms n by (simp add: js_rem_nonneg del: js_rem.simps)
  have shifted: "js_plus (js_plus (Num m) (- 1)) n = Num (m - 1 + n)"
    by simp
  have val: "m - 1 + n = (if i + 1 = n then i else i + n)"
    using m by auto
  have nonneg: "0 \<le> m - 1 + n"
    unfolding val using assms by simp
  have "(m - 1 + n) mod n = i"
    unfolding val using assms by simp
  with js_rem_nonneg [OF nonneg n] show ?thesis
    unfolding down shifted by (simp only:)
qed

lemma up_down:
  assumes "0 \<le> i" "i < n"
  shows "js_rem (js_plus (js_rem (js_plus (js_plus (Num i) (- 1)) n) n) 1) n = Num i"
proof -
  define m where "m = (i - 1 + n) mod n"
  have n: "0 < n" using assms by linarith
  have nonneg: "0 \<le> i - 1 + n" using assms by linarith
  have shifted: "js_plus (js_plus (Num i) (- 1)) n = Num (i - 1 + n)"
    by simp
  have up: "js_rem (Num (i - 1 + n)) n = Num m"
    unfolding m_def using nonneg n by (rule js_rem_nonneg)
  have m: "m = (if i = 0 then n - 1 else i - 1)"
  proof (cases "i = 0")
    case True
    have "(n - 1) mod n = n - 1" by (rule mod_pos_pos_trivial) (use n in linarith)+
    moreover have "i - 1 + n = n - 1" using True by simp
    ultimately have "m = n - 1" unfolding m_def by (simp only:)
    with True show ?thesis by simp
  next
    case False
    have "(i - 1 + n) mod n = (i - 1) mod n" by simp
    also have "\<dots> = i - 1" using False assms by simp
    finally have "m = i - 1" unfolding m_def .
    with False show ?thesis by simp
  qed
  have moved: "js_plus (Num m) 1 = Num (m + 1)"
    by simp
  have val: "m + 1 = (if i = 0 then n else i)"
    using m by auto
  have nonneg': "0 \<le> m + 1"
    unfolding val using assms by simp
  have "(m + 1) mod n = i"
    unfolding val using assms by simp
  with js_rem_nonneg [OF nonneg' n] show ?thesis
    unfolding shifted up moved by (simp only:)
qed

subsection \<open>Reachable sample states\<close>

lemma toCharacter_raw: "0 \<le> episodeCount c \<Longrightarrow> toCharacter (raw c) = Inr c"
  by (simp add: toCharacter_def raw_def)

lemma loaded_reachable:
  "run initial [Change ''Rick'', Settle (Fulfilled (Some [raw rick]))] = Inr loaded"
  by (simp add: step_def change_def updateSearchQuery_def searchEffect_def settle_def
        toCharacters_def toCharacter_raw rick_def initial_def loaded_def)

lemma stale_reachable:
  "run initial [Change ''Rick'',
                Settle (Fulfilled (Some (map raw [rick, morty, summer, beth, jerry, squanchy]))),
                KeyDown ''ArrowUp'',
                Change ''Ri'',
                Settle (Fulfilled (Some (map raw [rick, morty, summer])))] = Inr stale"
  by (simp add: step_def change_def updateSearchQuery_def searchEffect_def settle_def
        toCharacters_def toCharacter_raw rick_def morty_def summer_def beth_def jerry_def
        squanchy_def initial_def stale_def handleKeyDown_ArrowUp)


subsection \<open>The selection and its invariant\<close>

lemma isCharacterSelected_iff:
  "isCharacterSelected s i \<longleftrightarrow> i \<in> cid ` set (selectedCharacters s)"
  by (auto simp: isCharacterSelected_def list_ex_iff intro: rev_image_eqI)

lemma filter_other_ids:
  "i \<notin> cid ` set xs \<Longrightarrow> filter (\<lambda>c. cid c \<noteq> i) xs = xs"
  by (induction xs) auto

lemma selectCharacter_distinct:
  "distinct (map cid (selectedCharacters s)) \<Longrightarrow>
   distinct (map cid (selectedCharacters (selectCharacter s x)))"
  by (auto simp: selectCharacter_def isCharacterSelected_iff distinct_map_filter)

lemma removeCharacter_distinct:
  "distinct (map cid (selectedCharacters s)) \<Longrightarrow>
   distinct (map cid (selectedCharacters (removeCharacter s i)))"
  by (simp add: removeCharacter_def distinct_map_filter)

lemma handleKeyDown_selection:
  assumes "handleKeyDown s key = Inr (s', b)"
  shows "selectedCharacters s' = selectedCharacters s
       \<or> selectedCharacters s' = butlast (selectedCharacters s)
       \<or> (\<exists>ch. selectedCharacters s' = selectedCharacters (selectCharacter s ch))"
proof -
  consider (down) "key = ''ArrowDown''" | (up) "key = ''ArrowUp''" | (enter) "key = ''Enter''"
    | (backspace) "key = ''Backspace''" | (delete) "key = ''Delete''"
    | (other) "key \<noteq> ''ArrowDown''" "key \<noteq> ''ArrowUp''" "key \<noteq> ''Enter''"
        "key \<noteq> ''Backspace''" "key \<noteq> ''Delete''"
    by blast
  then show ?thesis
  proof cases
    case down
    with assms show ?thesis by (auto simp: handleKeyDown_ArrowDown)
  next
    case up
    with assms show ?thesis by (auto simp: handleKeyDown_ArrowUp)
  next
    case enter
    with assms show ?thesis
      by (auto simp: handleKeyDown_Enter split: if_splits option.splits)
  next
    case backspace
    with assms show ?thesis by (auto simp: handleKeyDown_Backspace split: if_splits)
  next
    case delete
    with assms show ?thesis by (auto simp: handleKeyDown_Delete split: if_splits)
  next
    case other
    with assms show ?thesis by (simp add: handleKeyDown_other)
  qed
qed

lemma handleKeyDown_distinct:
  assumes "distinct (map cid (selectedCharacters s))" and "handleKeyDown s key = Inr (s', b)"
  shows "distinct (map cid (selectedCharacters s'))"
  using handleKeyDown_selection [OF assms(2)] assms(1)
  by (auto simp: map_butlast distinct_butlast selectCharacter_distinct)

lemma step_distinct:
  assumes "distinct (map cid (selectedCharacters s))" and "step s ev = Inr s'"
  shows "distinct (map cid (selectedCharacters s'))"
proof (cases ev)
  case (KeyDown k)
  with assms show ?thesis
    by (auto simp: step_def split: sum.splits dest: handleKeyDown_distinct)
next
  case (Change q)
  with assms show ?thesis
    by (auto simp: step_def change_def updateSearchQuery_def searchEffect_def Let_def)
next
  case (Settle r)
  with assms show ?thesis
    by (auto simp: step_def settle_def onRejected_def split: response.splits sum.splits)
next
  case (ClickResult i)
  with assms show ?thesis
    by (auto simp: step_def selectCharacter_distinct split: if_splits)
next
  case (ClickTag i)
  with assms show ?thesis
    by (auto simp: step_def removeCharacter_distinct)
qed (use assms in \<open>auto simp: step_def handleMouseEnter_def handleMouseLeave_def\<close>)

lemma run_distinct:
  "distinct (map cid (selectedCharacters s)) \<Longrightarrow> run s evs = Inr s' \<Longrightarrow>
   distinct (map cid (selectedCharacters s'))"
proof (induction evs arbitrary: s)
  case Nil
  then show ?case by simp
next
  case (Cons ev evs)
  then show ?case
    by (auto split: sum.splits dest: step_distinct)
qed

text \<open>
  Claim C1. \<^verbatim>\<open>selectCharacter(x)\<close> appends \<open>x\<close> to the end of the selection when no entry has
  the id of \<open>x\<close>; when an entry has it, the result is the selection without the entries of
  that id, the others in their order. Where the entry is the only one of its id, it is
  exactly that entry that goes.
\<close>

theorem selectCharacter_toggles:
  "(cid x \<notin> cid ` set (selectedCharacters s) \<longrightarrow>
      selectedCharacters (selectCharacter s x) = selectedCharacters s @ [x]) \<and>
   (cid x \<in> cid ` set (selectedCharacters s) \<longrightarrow>
      selectedCharacters (selectCharacter s x)
        = filter (\<lambda>c. cid c \<noteq> cid x) (selectedCharacters s)) \<and>
   (\<forall>pre y post. selectedCharacters s = pre @ y # post \<and> cid y = cid x \<and>
        cid x \<notin> cid ` set pre \<and> cid x \<notin> cid ` set post \<longrightarrow>
      selectedCharacters (selectCharacter s x) = pre @ post)"
proof -
  have absent: "selectedCharacters (selectCharacter s x) = selectedCharacters s @ [x]"
    if "cid x \<notin> cid ` set (selectedCharacters s)"
    using that by (simp add: selectCharacter_def isCharacterSelected_iff)
  have present: "selectedCharacters (selectCharacter s x)
        = filter (\<lambda>c. cid c \<noteq> cid x) (selectedCharacters s)"
    if "cid x \<in> cid ` set (selectedCharacters s)"
    using that by (simp add: selectCharacter_def isCharacterSelected_iff)
  have single: "selectedCharacters (selectCharacter s x) = pre @ post"
    if "selectedCharacters s = pre @ y # post" "cid y = cid x"
       "cid x \<notin> cid ` set pre" "cid x \<notin> cid ` set post" for pre y post
  proof -
    from that(1,2) have "cid x \<in> cid ` set (selectedCharacters s)"
      by (metis image_eqI in_set_conv_decomp)
    then have "selectedCharacters (selectCharacter s x)
        = filter (\<lambda>c. cid c \<noteq> cid x) (selectedCharacters s)"
      by (rule present)
    also have "\<dots> = filter (\<lambda>c. cid c \<noteq> cid x) (pre @ y # post)"
      by (simp only: that(1))
    also have "\<dots> = pre @ post"
      using that(2-4) by (simp add: filter_other_ids)
    finally show ?thesis .
  qed
  from absent present single show ?thesis by blast
qed

theorem selectCharacter_toggles_witness:
  "cid summer \<notin> cid ` set [rick, morty] \<and>
   selectedCharacters (selectCharacter (initial\<lparr> selectedCharacters := [rick, morty] \<rparr>) summer)
     = [rick, morty, summer] \<and>
   cid morty \<in> cid ` set [rick, morty, summer] \<and>
   selectedCharacters (selectCharacter (initial\<lparr> selectedCharacters := [rick, morty, summer] \<rparr>) morty)
     = [rick, summer]"
  using selectCharacter_toggles [of summer "initial\<lparr> selectedCharacters := [rick, morty] \<rparr>"]
    selectCharacter_toggles [of morty "initial\<lparr> selectedCharacters := [rick, morty, summer] \<rparr>"]
  by (simp add: rick_def morty_def summer_def)

text \<open>
  Claim C9. Distinct ids are an invariant of the selection: \<^verbatim>\<open>selectCharacter\<close>,
  \<^verbatim>\<open>removeCharacter\<close> and every key press that returns (the removal of the last item by
  \<^verbatim>\<open>Backspace\<close> and \<^verbatim>\<open>Delete\<close> among them) take a selection with pairwise distinct ids to one
  with pairwise distinct ids.
\<close>

theorem selection_ids_stay_distinct:
  assumes "distinct (map cid (selectedCharacters s))"
  shows "distinct (map cid (selectedCharacters (selectCharacter s x))) \<and>
         distinct (map cid (selectedCharacters (removeCharacter s i))) \<and>
         (\<forall>key s' b. handleKeyDown s key = Inr (s', b) \<longrightarrow>
            distinct (map cid (selectedCharacters s')))"
  using assms selectCharacter_distinct removeCharacter_distinct handleKeyDown_distinct
  by blast

theorem selection_ids_stay_distinct_witness:
  "distinct (map cid [rick, morty]) \<and>
   handleKeyDown (initial\<lparr> selectedCharacters := [rick, morty] \<rparr>) ''Backspace''
     = Inr (initial\<lparr> selectedCharacters := [rick] \<rparr>, False) \<and>
   distinct (map cid (selectedCharacters
      (selectCharacter (initial\<lparr> selectedCharacters := [rick, morty] \<rparr>) summer))) \<and>
   distinct (map cid (selectedCharacters
      (removeCharacter (initial\<lparr> selectedCharacters := [rick, morty] \<rparr>) 1))) \<and>
   distinct (map cid (selectedCharacters (initial\<lparr> selectedCharacters := [rick] \<rparr>)))"
proof -
  have d: "distinct (map cid (selectedCharacters (initial\<lparr> selectedCharacters := [rick, morty] \<rparr>)))"
    by (simp add: rick_def morty_def)
  have k: "handleKeyDown (initial\<lparr> selectedCharacters := [rick, morty] \<rparr>) ''Backspace''
     = Inr (initial\<lparr> selectedCharacters := [rick] \<rparr>, False)"
    by (simp add: handleKeyDown_Backspace initial_def)
  from selection_ids_stay_distinct [OF d, of summer 1] k d show ?thesis
    by auto
qed


subsection \<open>Query text and lookups\<close>

text \<open>
  Claim C4. \<^verbatim>\<open>updateSearchQuery(s)\<close> sets the query text to \<open>s\<close> and clears the error flag,
  whatever the flag was; the same holds once the effect that may start a lookup has run.
\<close>

theorem updateSearchQuery_sets_query_clears_error:
  "searchQuery (updateSearchQuery s q) = q \<and> \<not> isError (updateSearchQuery s q) \<and>
   searchQuery (change s q) = q \<and> \<not> isError (change s q)"
  by (simp add: updateSearchQuery_def change_def searchEffect_def Let_def)

text \<open>
  Claim C5. When a lookup fails (the request is rejected, or the payload cannot be mapped),
  \<^verbatim>\<open>isError\<close> becomes true, \<^verbatim>\<open>isLoading\<close> becomes false, and the results and every other cell
  stay as they were.
\<close>

theorem failed_lookup_sets_flags_only:
  assumes "lookupFailed r"
  shows "isError (settle s r) \<and> \<not> isLoading (settle s r) \<and>
         searchResults (settle s r) = searchResults s \<and>
         searchQuery (settle s r) = searchQuery s \<and>
         selectedCharacters (settle s r) = selectedCharacters s \<and>
         highlightedIndex (settle s r) = highlightedIndex s \<and>
         focusedSelectedIndex (settle s r) = focusedSelectedIndex s \<and>
         hoveredIndex (settle s r) = hoveredIndex s"
  using assms
  by (auto simp: lookupFailed_def settle_def onRejected_def split: response.splits sum.splits)

theorem failed_lookup_sets_flags_only_witness:
  "lookupFailed Rejected \<and>
   isError (settle (loaded\<lparr> isLoading := True \<rparr>) Rejected) \<and>
   \<not> isLoading (settle (loaded\<lparr> isLoading := True \<rparr>) Rejected) \<and>
   searchResults (settle (loaded\<lparr> isLoading := True \<rparr>) Rejected) = [rick] \<and>
   lookupFailed (Fulfilled (Some [raw rick, (raw morty)\<lparr> raw_episode := None \<rparr>])) \<and>
   searchResults (settle (loaded\<lparr> isLoading := True \<rparr>)
       (Fulfilled (Some [raw rick, (raw morty)\<lparr> raw_episode := None \<rparr>]))) = [rick]"
proof -
  have r: "lookupFailed Rejected"
    by (simp add: lookupFailed_def)
  have m: "lookupFailed (Fulfilled (Some [raw rick, (raw morty)\<lparr> raw_episode := None \<rparr>]))"
    by (simp add: lookupFailed_def toCharacters_def toCharacter_def raw_def)
  from failed_lookup_sets_flags_only [OF r, of "loaded\<lparr> isLoading := True \<rparr>"]
    failed_lookup_sets_flags_only [OF m, of "loaded\<lparr> isLoading := True \<rparr>"] r m
  show ?thesis by (simp add: loaded_def)
qed

subsection \<open>Deletion keys and keys without a branch\<close>

text \<open>
  Claim C6. \<^verbatim>\<open>Backspace\<close> or \<^verbatim>\<open>Delete\<close> with an empty query and a non-empty selection removes
  the last item of the selection and nothing else; with an empty selection the state stays
  as it is. The last item is the one appended last: the key undoes the \<^verbatim>\<open>selectCharacter\<close>
  that added an item.
\<close>

theorem Backspace_removes_last_selected:
  assumes "key = ''Backspace'' \<or> key = ''Delete''"
  shows "(searchQuery s = [] \<and> selectedCharacters s \<noteq> [] \<longrightarrow>
            (\<exists>s'. handleKeyDown s key = Inr (s', False) \<and>
                  selectedCharacters s = selectedCharacters s' @ [last (selectedCharacters s)] \<and>
                  s' = s\<lparr> selectedCharacters := selectedCharacters s' \<rparr>)) \<and>
         (selectedCharacters s = [] \<longrightarrow> handleKeyDown s key = Inr (s, False)) \<and>
         (searchQuery s = [] \<and> \<not> isCharacterSelected s (cid x) \<longrightarrow>
            handleKeyDown (selectCharacter s x) key = Inr (s, False))"
  using assms
  by (auto simp: handleKeyDown_Backspace handleKeyDown_Delete selectCharacter_def)

theorem Backspace_removes_last_selected_witness:
  "handleKeyDown (initial\<lparr> selectedCharacters := [rick, morty] \<rparr>) ''Backspace''
     = Inr (initial\<lparr> selectedCharacters := [rick] \<rparr>, False) \<and>
   handleKeyDown initial ''Delete'' = Inr (initial, False) \<and>
   handleKeyDown (selectCharacter (initial\<lparr> selectedCharacters := [rick] \<rparr>) morty) ''Delete''
     = Inr (initial\<lparr> selectedCharacters := [rick] \<rparr>, False)"
proof -
  have k: "''Backspace'' = ''Backspace'' \<or> ''Backspace'' = ''Delete''"
    and d: "''Delete'' = ''Backspace'' \<or> ''Delete'' = ''Delete''"
    by simp_all
  have q: "searchQuery (initial\<lparr> selectedCharacters := [rick, morty] \<rparr>) = [] \<and>
           selectedCharacters (initial\<lparr> selectedCharacters := [rick, morty] \<rparr>) \<noteq> []"
    by (simp add: initial_def)
  have e: "selectedCharacters initial = []"
    by (simp add: initial_def)
  have n: "searchQuery (initial\<lparr> selectedCharacters := [rick] \<rparr>) = [] \<and>
           \<not> isCharacterSelected (initial\<lparr> selectedCharacters := [rick] \<rparr>) (cid morty)"
    by (simp add: initial_def isCharacterSelected_def rick_def morty_def)
  from Backspace_removes_last_selected [OF k, of "initial\<lparr> selectedCharacters := [rick, morty] \<rparr>" morty]
    Backspace_removes_last_selected [OF d, of initial morty]
    Backspace_removes_last_selected [OF d, of "initial\<lparr> selectedCharacters := [rick] \<rparr>" morty]
    q e n
  show ?thesis by (auto simp: initial_def)
qed

text \<open>
  Claim C10. A key other than \<^verbatim>\<open>ArrowDown\<close>, \<^verbatim>\<open>ArrowUp\<close>, \<^verbatim>\<open>Enter\<close>, \<^verbatim>\<open>Backspace\<close> and
  \<^verbatim>\<open>Delete\<close> (\<^verbatim>\<open>Tab\<close> among them) leaves every cell of the state as it is; the handler returns
  and does not suppress the default action.
\<close>

theorem other_keys_change_nothing:
  assumes "key \<notin> {''ArrowDown'', ''ArrowUp'', ''Enter'', ''Backspace'', ''Delete''}"
  shows "handleKeyDown s key = Inr (s, False)"
  using assms by (intro handleKeyDown_other) simp_all

theorem other_keys_change_nothing_witness:
  "''Tab'' \<notin> {''ArrowDown'', ''ArrowUp'', ''Enter'', ''Backspace'', ''Delete''} \<and>
   handleKeyDown loaded ''Tab'' = Inr (loaded, False)"
proof -
  have k: "''Tab'' \<notin> {''ArrowDown'', ''ArrowUp'', ''Enter'', ''Backspace'', ''Delete''}"
    by simp
  from other_keys_change_nothing [OF k, of loaded] k show ?thesis by simp
qed


subsection \<open>Arrow keys\<close>

lemma arrow_on_empty_results:
  assumes "searchResults s = []"
  shows "map_sum id (highlightedIndex \<circ> fst) (handleKeyDown s ''ArrowDown'') = Inr NaN"
    and "map_sum id (highlightedIndex \<circ> fst) (handleKeyDown s ''ArrowUp'') = Inr NaN"
  using assms
  by (cases "highlightedIndex s"; simp add: handleKeyDown_ArrowDown handleKeyDown_ArrowUp)+

lemma NaN_stays:
  assumes "highlightedIndex s = NaN"
  shows "map_sum id (highlightedIndex \<circ> fst) (handleKeyDown s ''ArrowDown'') = Inr NaN"
    and "map_sum id (highlightedIndex \<circ> fst) (handleKeyDown s ''ArrowUp'') = Inr NaN"
  using assms by (simp_all add: handleKeyDown_ArrowDown handleKeyDown_ArrowUp)

text \<open>
  Claim C2. With no results, \<^verbatim>\<open>ArrowDown\<close> and \<^verbatim>\<open>ArrowUp\<close> return, but they do not leave the
  indices alone: at the initial state the remainder by the length zero turns
  \<^verbatim>\<open>highlightedIndex\<close> from 0 into \<^verbatim>\<open>NaN\<close>, and \<^verbatim>\<open>hoveredIndex\<close> goes from \<^verbatim>\<open>null\<close> to 0 or
  to -1.
\<close>

theorem arrow_keys_on_empty_results:
  "searchResults initial = [] \<and> highlightedIndex initial = Num 0 \<and> hoveredIndex initial = None \<and>
   handleKeyDown initial ''ArrowDown''
     = Inr (initial\<lparr> highlightedIndex := NaN, hoveredIndex := Some (Num 0) \<rparr>, False) \<and>
   handleKeyDown initial ''ArrowUp''
     = Inr (initial\<lparr> highlightedIndex := NaN, hoveredIndex := Some (Num (- 1)) \<rparr>, False)"
  by (simp add: handleKeyDown_ArrowDown handleKeyDown_ArrowUp initial_def)

text \<open>
  Claim C7, as stated for every index, fails: an index left over from a longer result list
  is folded into the range by the first key and does not come back.
\<close>

theorem arrow_round_trip_stale_index:
  "searchResults stale \<noteq> [] \<and> highlightedIndex stale = Num 5 \<and>
   map_sum id highlightedIndex (run stale [KeyDown ''ArrowDown'', KeyDown ''ArrowUp''])
     = Inr (Num 2) \<and>
   map_sum id highlightedIndex (run stale [KeyDown ''ArrowUp'', KeyDown ''ArrowDown''])
     = Inr (Num 2)"
  by (simp add: step_def handleKeyDown_ArrowDown handleKeyDown_ArrowUp stale_def initial_def)

text \<open>
  Claim C7, amended. When \<^verbatim>\<open>highlightedIndex\<close> is a position of the (then non-empty) result
  list, \<^verbatim>\<open>ArrowDown\<close> followed by \<^verbatim>\<open>ArrowUp\<close>, and \<^verbatim>\<open>ArrowUp\<close> followed by \<^verbatim>\<open>ArrowDown\<close>, both
  return and bring \<^verbatim>\<open>highlightedIndex\<close> back to its value.
\<close>

theorem arrow_round_trip_in_range:
  assumes "highlightedIndex s = Num i" and "0 \<le> i" and "i < int (length (searchResults s))"
  shows "map_sum id highlightedIndex (run s [KeyDown ''ArrowDown'', KeyDown ''ArrowUp''])
           = Inr (Num i) \<and>
         map_sum id highlightedIndex (run s [KeyDown ''ArrowUp'', KeyDown ''ArrowDown''])
           = Inr (Num i)"
  using assms down_up [of i "int (length (searchResults s))"]
    up_down [of i "int (length (searchResults s))"]
  by (simp add: step_def handleKeyDown_ArrowDown handleKeyDown_ArrowUp
           del: js_rem.simps js_plus.simps)

theorem arrow_round_trip_in_range_witness:
  "highlightedIndex (stale\<lparr> highlightedIndex := Num 2 \<rparr>) = Num 2 \<and> (0::int) \<le> 2 \<and>
   2 < int (length (searchResults (stale\<lparr> highlightedIndex := Num 2 \<rparr>))) \<and>
   map_sum id highlightedIndex
     (run (stale\<lparr> highlightedIndex := Num 2 \<rparr>) [KeyDown ''ArrowDown'', KeyDown ''ArrowUp''])
     = Inr (Num 2) \<and>
   map_sum id highlightedIndex
     (run (stale\<lparr> highlightedIndex := Num 2 \<rparr>) [KeyDown ''ArrowUp'', KeyDown ''ArrowDown''])
     = Inr (Num 2)"
proof -
  have h: "highlightedIndex (stale\<lparr> highlightedIndex := Num 2 \<rparr>) = Num 2"
    by simp
  have l: "(0::int) \<le> 2" by simp
  have u: "2 < int (length (searchResults (stale\<lparr> highlightedIndex := Num 2 \<rparr>)))"
    by (simp add: stale_def)
  from arrow_round_trip_in_range [OF h l u] h l u show ?thesis by blast
qed

subsection \<open>Enter\<close>

lemma Enter_in_range:
  assumes "highlightedIndex s = Num i" and "1 \<le> i" and "i \<le> int (length (searchResults s))"
  shows "handleKeyDown s ''Enter''
           = Inr (selectCharacter s (searchResults s ! nat (i - 1)), True)"
  using assms by (auto simp: handleKeyDown_Enter)

lemma Enter_throws_iff:
  assumes "searchResults s \<noteq> []"
  shows "handleKeyDown s ''Enter'' = Inl TypeError \<longleftrightarrow>
           (\<forall>i. highlightedIndex s = Num i \<longrightarrow> i < 1 \<or> int (length (searchResults s)) < i)"
  using assms
  by (cases "highlightedIndex s") (auto simp: handleKeyDown_Enter)

text \<open>
  Claim C3. With results on screen and \<^verbatim>\<open>highlightedIndex\<close> at its initial value 0, \<^verbatim>\<open>Enter\<close>
  reads \<^verbatim>\<open>searchResults[-1]\<close>, which is \<^verbatim>\<open>undefined\<close>, and \<^verbatim>\<open>selectCharacter\<close> throws on it:
  nothing is toggled and \<^verbatim>\<open>preventDefault\<close> is not reached. The state is the one a first
  successful lookup leaves.
\<close>

theorem Enter_at_initial_index_throws:
  "run initial [Change ''Rick'', Settle (Fulfilled (Some [raw rick]))] = Inr loaded \<and>
   searchResults loaded \<noteq> [] \<and> highlightedIndex loaded = Num 0 \<and>
   handleKeyDown loaded ''Enter'' = Inl TypeError"
  using loaded_reachable by (simp add: handleKeyDown_Enter loaded_def initial_def)

subsection \<open>Highlighting\<close>

text \<open>
  For a query the model covers and the constructor accepts, the spans put together are the
  text that was given: highlighting only cuts the text and marks the pieces.
\<close>

lemma substring_join: "p \<le> q \<Longrightarrow> substring S p q @ drop q S = drop p S"
proof -
  assume "p \<le> q"
  then have "drop q S = drop (q - p) (drop p S)" by simp
  then show ?thesis by (simp only: substring_def append_take_drop_id)
qed

lemma exec_at_end: "exec_at w S q = Some e \<Longrightarrow> q \<le> e"
  by (auto simp: exec_at_def split: if_splits)

lemma split_loop_concat: "p \<le> q \<Longrightarrow> concat (split_loop w S p q) = drop p S"
proof (induction w S p q rule: split_loop.induct)
  case (1 w S p q)
  show ?case
  proof (cases "q < length S")
    case False
    then show ?thesis
      by (subst split_loop.simps) (simp add: substring_def)
  next
    case True
    show ?thesis
    proof (cases "exec_at w S q")
      case None
      with True "1.IH"(1) "1.prems" show ?thesis
        by (subst split_loop.simps) simp
    next
      case (Some e)
      show ?thesis
      proof (cases "e = p")
        case same: True
        with True Some "1.IH"(2) "1.prems" show ?thesis
          by (subst split_loop.simps) simp
      next
        case differ: False
        from Some have qe: "q \<le> e" by (rule exec_at_end)
        from True Some differ "1.IH"(3) have "concat (split_loop w S e e) = drop e S"
          by simp
        with True Some differ have "concat (split_loop w S p q)
            = substring S p q @ substring S q e @ drop e S"
          by (subst split_loop.simps) simp
        also have "\<dots> = substring S p q @ drop q S"
          using qe by (simp only: substring_join)
        also have "\<dots> = drop p S"
          using "1.prems" by (rule substring_join)
        finally show ?thesis .
      qed
    qed
  qed
qed

lemma js_split_concat: "concat (js_split S w) = S"
  by (auto simp: js_split_def split_loop_concat split: option.splits)

lemma highlightText_keeps_text:
  assumes "highlightText txt query = Some (Inr spans)"
  shows "concat (map content spans) = txt"
proof -
  from assms obtain w where "spans = map (\<lambda>part. \<lparr> content = part,
        bold = (toLowerCase part = toLowerCase query) \<rparr>) (js_split txt w)"
    by (auto simp: highlightText_def split: option.splits sum.splits)
  then have "map content spans = js_split txt w"
    by (simp add: comp_def)
  then show ?thesis by (simp add: js_split_concat)
qed

lemma highlightText_plain_query:
  assumes "\<not> list_ex isOtherSyntax query" and "\<not> list_ex isParen query"
  shows "\<exists>spans. highlightText txt query = Some (Inr spans)"
  using assms by (simp add: highlightText_def RegExp_group_def)

lemma highlightText_Morty_or:
  "highlightText ''Morty'' ''or'' =
     Some (Inr [\<lparr> content = ''M'', bold = False \<rparr>, \<lparr> content = ''or'', bold = True \<rparr>,
                \<lparr> content = ''ty'', bold = False \<rparr>])"
  by code_simp

lemma highlightText_Morty_OR:
  "highlightText ''Morty'' ''OR'' =
     Some (Inr [\<lparr> content = ''M'', bold = False \<rparr>, \<lparr> content = ''or'', bold = True \<rparr>,
                \<lparr> content = ''ty'', bold = False \<rparr>])"
  by code_simp

lemma highlightText_Morty_empty_query:
  "highlightText ''Morty'' [] =
     Some (Inr [\<lparr> content = ''M'', bold = False \<rparr>, \<lparr> content = [], bold = True \<rparr>,
                \<lparr> content = ''o'', bold = False \<rparr>, \<lparr> content = [], bold = True \<rparr>,
                \<lparr> content = ''r'', bold = False \<rparr>, \<lparr> content = [], bold = True \<rparr>,
                \<lparr> content = ''t'', bold = False \<rparr>, \<lparr> content = [], bold = True \<rparr>,
                \<lparr> content = ''y'', bold = False \<rparr>])"
  by code_simp

text \<open>
  Claim C8. The query goes into the pattern as it is. For the query \<^verbatim>\<open>(\<close> the pattern source
  is \<^verbatim>\<open>(()\<close>, the constructor throws, and \<^verbatim>\<open>highlightText\<close> renders nothing.
\<close>

theorem highlightText_unescaped_query_throws:
  "highlightText ''Morty'' ''('' = Some (Inl SyntaxError)"
  by (simp add: highlightText_def RegExp_group_def isOtherSyntax_def isParen_def)


end
